theory Spec2Isabelle
  imports Complex_Main "HOL-Library.Sublist"
begin

section \<open>JavaScript numbers\<close>

text \<open>
  A JavaScript \<^verbatim>\<open>number\<close> is NaN, one of the two infinities, or a finite value.
  Finite values are idealised as reals: rounding, overflow of finite arithmetic and the
  sign of zero are not modelled. The special values follow IEEE 754 as JavaScript has it.
\<close>

datatype number = NaN | PosInf | NegInf | Fin real

fun js_neg :: "number \<Rightarrow> number" where
  "js_neg NaN = NaN"
| "js_neg PosInf = NegInf"
| "js_neg NegInf = PosInf"
| "js_neg (Fin x) = Fin (- x)"

fun js_add :: "number \<Rightarrow> number \<Rightarrow> number" where
  "js_add NaN y = NaN"
| "js_add (Fin x) NaN = NaN"
| "js_add (Fin x) (Fin y) = Fin (x + y)"
| "js_add (Fin x) PosInf = PosInf"
| "js_add (Fin x) NegInf = NegInf"
| "js_add PosInf NaN = NaN"
| "js_add PosInf NegInf = NaN"
| "js_add PosInf PosInf = PosInf"
| "js_add PosInf (Fin y) = PosInf"
| "js_add NegInf NaN = NaN"
| "js_add NegInf PosInf = NaN"
| "js_add NegInf NegInf = NegInf"
| "js_add NegInf (Fin y) = NegInf"

definition js_sub :: "number \<Rightarrow> number \<Rightarrow> number" where
  "js_sub x y = js_add x (js_neg y)"

text \<open>An infinity times a finite factor: NaN for zero, otherwise the sign rule.\<close>

definition scale_inf :: "real \<Rightarrow> number \<Rightarrow> number" where
  "scale_inf x i = (if x = 0 then NaN else if 0 < x then i else js_neg i)"

fun js_mul :: "number \<Rightarrow> number \<Rightarrow> number" where
  "js_mul NaN y = NaN"
| "js_mul (Fin x) NaN = NaN"
| "js_mul (Fin x) (Fin y) = Fin (x * y)"
| "js_mul (Fin x) PosInf = scale_inf x PosInf"
| "js_mul (Fin x) NegInf = scale_inf x NegInf"
| "js_mul PosInf NaN = NaN"
| "js_mul PosInf PosInf = PosInf"
| "js_mul PosInf NegInf = NegInf"
| "js_mul PosInf (Fin y) = scale_inf y PosInf"
| "js_mul NegInf NaN = NaN"
| "js_mul NegInf PosInf = NegInf"
| "js_mul NegInf NegInf = PosInf"
| "js_mul NegInf (Fin y) = scale_inf y NegInf"

text \<open>
  Division. A finite non-zero value over zero is an infinity, zero over zero is NaN.
  The only divisor the program forms is a product of square roots, whose zero is \<open>+0\<close>.
\<close>

fun js_div :: "number \<Rightarrow> number \<Rightarrow> number" where
  "js_div NaN y = NaN"
| "js_div (Fin x) NaN = NaN"
| "js_div (Fin x) (Fin y) =
     (if y = 0 then (if x = 0 then NaN else if 0 < x then PosInf else NegInf)
      else Fin (x / y))"
| "js_div (Fin x) PosInf = Fin 0"
| "js_div (Fin x) NegInf = Fin 0"
| "js_div PosInf (Fin y) = (if 0 \<le> y then PosInf else NegInf)"
| "js_div PosInf y = NaN"
| "js_div NegInf (Fin y) = (if 0 \<le> y then NegInf else PosInf)"
| "js_div NegInf y = NaN"

text \<open>\<^verbatim>\<open>Math.sqrt\<close>.\<close>

fun js_sqrt :: "number \<Rightarrow> number" where
  "js_sqrt NaN = NaN"
| "js_sqrt PosInf = PosInf"
| "js_sqrt NegInf = NaN"
| "js_sqrt (Fin x) = (if x < 0 then NaN else Fin (sqrt x))"

text \<open>\<^verbatim>\<open>Math.min\<close> of two arguments: NaN as soon as one argument is NaN.\<close>

fun js_min :: "number \<Rightarrow> number \<Rightarrow> number" where
  "js_min NaN y = NaN"
| "js_min (Fin x) NaN = NaN"
| "js_min (Fin x) (Fin y) = Fin (min x y)"
| "js_min (Fin x) PosInf = Fin x"
| "js_min (Fin x) NegInf = NegInf"
| "js_min PosInf NaN = NaN"
| "js_min PosInf y = y"
| "js_min NegInf NaN = NaN"
| "js_min NegInf y = NegInf"

text \<open>The comparisons \<^verbatim>\<open><=\<close> and \<^verbatim>\<open><\<close>: false as soon as one side is NaN.\<close>

fun js_le :: "number \<Rightarrow> number \<Rightarrow> bool" where
  "js_le NaN y = False"
| "js_le (Fin x) NaN = False"
| "js_le (Fin x) (Fin y) = (x \<le> y)"
| "js_le (Fin x) PosInf = True"
| "js_le (Fin x) NegInf = False"
| "js_le PosInf PosInf = True"
| "js_le PosInf y = False"
| "js_le NegInf NaN = False"
| "js_le NegInf y = True"


section \<open>The analysis result (AnalysisResults.tsx)\<close>

datatype intent = Informational | Transactional | Navigational | Mixed

text \<open>
  The interface \<^verbatim>\<open>AnalysisResult\<close>. A field declared with \<^verbatim>\<open>?\<close> is optional:
  \<open>None\<close> is the absent field (\<^verbatim>\<open>undefined\<close>).
\<close>

record AnalysisResult =
  url :: string
  prompt :: string
  pageText :: string
  gptAnswer :: string
  similarity :: number
  urlPattern :: "string option"
  matchFound :: "bool option"
  idealPrompt :: "string option"
  intentType :: "intent option"
  priorityScore :: "number option"
  keywordGaps :: "string list option"
  entityMismatch :: "bool option"
  sentenceStructureIssue :: "bool option"

subsection \<open>calculatePriorityScore\<close>

text \<open>
  The function assigns \<^verbatim>\<open>score\<close> six times; each assignment is one \<open>let\<close>. An absent or
  empty \<^verbatim>\<open>keywordGaps\<close>, and an absent or false flag, leave the score as it is.
\<close>

definition calculatePriorityScore :: "AnalysisResult \<Rightarrow> number" where
  "calculatePriorityScore result =
     (let score = Fin 50;
          score = js_add score (js_mul (js_sub (Fin 1) (similarity result)) (Fin 40));
          score = (if intentType result = Some Transactional then js_add score (Fin 20) else score);
          score = (if intentType result = Some Mixed then js_add score (Fin 15) else score);
          score = (case keywordGaps result of
                     None \<Rightarrow> score
                   | Some gaps \<Rightarrow>
                       if 0 < length gaps then js_add score (Fin (real (length gaps) * 5))
                       else score);
          score = (if entityMismatch result = Some True then js_add score (Fin 15) else score);
          score = (if sentenceStructureIssue result = Some True then js_add score (Fin 10)
                   else score)
      in js_min score (Fin 100))"

text \<open>
  The score as the specification words it: the sum of the base and of one term per
  factor, capped at 100. It is stated for a finite similarity \<open>s\<close>.
\<close>

definition gap_count :: "AnalysisResult \<Rightarrow> nat" where
  "gap_count result = (case keywordGaps result of None \<Rightarrow> 0 | Some gaps \<Rightarrow> length gaps)"

definition factor_points :: "AnalysisResult \<Rightarrow> real" where
  "factor_points result =
     (if intentType result = Some Transactional then 20 else 0)
     + (if intentType result = Some Mixed then 15 else 0)
     + 5 * real (gap_count result)
     + (if entityMismatch result = Some True then 15 else 0)
     + (if sentenceStructureIssue result = Some True then 10 else 0)"

definition spec_priority :: "real \<Rightarrow> AnalysisResult \<Rightarrow> real" where
  "spec_priority s result = min 100 (50 + (1 - s) * 40 + factor_points result)"

text \<open>
  A result whose only factor is a transactional intent, at the similarity \<open>s\<close>: what the
  pipeline and the diagnostics produce for a page that shares no critical term with the
  answer.
\<close>

definition transactional_result :: "real \<Rightarrow> AnalysisResult" where
  "transactional_result s =
     \<lparr>url = ''https://www.example.com/train-times/london-to-paris/'',
      prompt = ''cheapest london to paris train tickets online'',
      pageText = ''Trains from London to Paris'',
      gptAnswer = ''Take the train'',
      similarity = Fin s,
      urlPattern = Some ''cheapest london to paris train tickets online'',
      matchFound = Some True,
      idealPrompt = Some ''cheapest london to paris train tickets online'',
      intentType = Some Transactional,
      priorityScore = Some (Fin 0),
      keywordGaps = Some [],
      entityMismatch = Some False,
      sentenceStructureIssue = Some False\<rparr>"

section \<open>The similarity engine (useAnalyzer.ts)\<close>

text \<open>
  \<^verbatim>\<open>Array.prototype.reduce\<close> with an initial value: the callback receives the
  accumulator, the element and its index, from index 0 on.
\<close>

fun reduce_from ::
  "(number \<Rightarrow> number \<Rightarrow> nat \<Rightarrow> number) \<Rightarrow> number \<Rightarrow> nat \<Rightarrow> number list \<Rightarrow> number" where
  "reduce_from f acc i [] = acc"
| "reduce_from f acc i (v # vs) = reduce_from f (f acc v i) (Suc i) vs"

definition reduce ::
  "number list \<Rightarrow> (number \<Rightarrow> number \<Rightarrow> nat \<Rightarrow> number) \<Rightarrow> number \<Rightarrow> number" where
  "reduce a f init = reduce_from f init 0 a"

text \<open>
  \<^verbatim>\<open>b[i]\<close> as an operand of \<^verbatim>\<open>*\<close>: past the end of the array the read is
  \<^verbatim>\<open>undefined\<close>, which the multiplication converts to NaN.
\<close>

definition js_index :: "number list \<Rightarrow> nat \<Rightarrow> number" where
  "js_index b i = (if i < length b then b ! i else NaN)"

definition cosineSimilarity :: "number list \<Rightarrow> number list \<Rightarrow> number" where
  "cosineSimilarity a b =
     (let dotProduct = reduce a (\<lambda>sum val i. js_add sum (js_mul val (js_index b i))) (Fin 0);
          magnitudeA = js_sqrt (reduce a (\<lambda>sum val i. js_add sum (js_mul val val)) (Fin 0));
          magnitudeB = js_sqrt (reduce b (\<lambda>sum val i. js_add sum (js_mul val val)) (Fin 0))
      in js_div dotProduct (js_mul magnitudeA magnitudeB))"



section \<open>Strings\<close>

text \<open>
  A JavaScript string is modelled as a list of characters. \<^verbatim>\<open>toLowerCase\<close> maps the
  letters A to Z to a to z and leaves every other character as it is (the case mapping
  of characters outside ASCII is not modelled).
\<close>

definition to_lower_char :: "char \<Rightarrow> char" where
  "to_lower_char c =
     (case map_of (zip ''ABCDEFGHIJKLMNOPQRSTUVWXYZ'' ''abcdefghijklmnopqrstuvwxyz'') c of
        None \<Rightarrow> c
      | Some l \<Rightarrow> l)"

definition toLowerCase :: "string \<Rightarrow> string" where
  "toLowerCase s = map to_lower_char s"

text \<open>\<^verbatim>\<open>s.includes(t)\<close>: \<open>t\<close> occurs in \<open>s\<close> at some position.\<close>

fun js_includes :: "string \<Rightarrow> string \<Rightarrow> bool" where
  "js_includes [] t = (t = [])"
| "js_includes (c # cs) t = (prefix t (c # cs) \<or> js_includes cs t)"

section \<open>The response matcher (useAnalyzer.ts)\<close>

text \<open>
  An entry of the answer corpus. The code reads \<^verbatim>\<open>item.prompt\<close> and
  \<^verbatim>\<open>item.response\<close>; \<open>None\<close> is a missing (or otherwise falsy) field, which
  \<^verbatim>\<open>|| ''\<close> replaces by the empty string.
\<close>

record json_item =
  item_prompt :: "string option"
  item_response :: "string option"

definition or_empty :: "string option \<Rightarrow> string" where
  "or_empty v = (case v of None \<Rightarrow> [] | Some s \<Rightarrow> s)"

fun findMatchingGPTResponse :: "string \<Rightarrow> json_item list \<Rightarrow> string" where
  "findMatchingGPTResponse prompt' [] = []"
| "findMatchingGPTResponse prompt' (item # rest) =
     (let lowerPrompt = toLowerCase prompt';
          itemPrompt = toLowerCase (or_empty (item_prompt item))
      in if js_includes itemPrompt lowerPrompt \<or> js_includes lowerPrompt itemPrompt
         then or_empty (item_response item)
         else findMatchingGPTResponse prompt' rest)"

text \<open>
  The specification's test: the entry's query is a case-insensitive substring of the
  prompt, or the prompt one of the query.
\<close>

definition symmetric_substring :: "string \<Rightarrow> json_item \<Rightarrow> bool" where
  "symmetric_substring prompt' item =
     (sublist (toLowerCase (or_empty (item_prompt item))) (toLowerCase prompt')
      \<or> sublist (toLowerCase prompt') (toLowerCase (or_empty (item_prompt item))))"

definition corpus_entry :: "string \<Rightarrow> string \<Rightarrow> json_item" where
  "corpus_entry q r = \<lparr>item_prompt = Some q, item_response = Some r\<rparr>"

section \<open>Intent classification (AnalysisResults.tsx)\<close>

definition transactionalKeywords :: "string list" where
  "transactionalKeywords =
     [''buy'', ''book'', ''cheap'', ''price'', ''ticket'', ''online'', ''purchase'']"

definition informationalKeywords :: "string list" where
  "informationalKeywords =
     [''how'', ''what'', ''when'', ''schedule'', ''duration'', ''route'', ''info'']"

definition navigationalKeywords :: "string list" where
  "navigationalKeywords = [''trainline'', ''website'', ''official'', ''login'', ''account'']"

text \<open>\<^verbatim>\<open>keywords.filter(kw => text.includes(kw)).length\<close>\<close>

definition keyword_count :: "string list \<Rightarrow> string \<Rightarrow> nat" where
  "keyword_count keywords text = length (filter (\<lambda>kw. js_includes text kw) keywords)"

definition classifyIntent :: "string \<Rightarrow> string \<Rightarrow> intent" where
  "classifyIntent prompt' pageText' =
     (let text = toLowerCase (prompt' @ '' '' @ pageText');
          transactionalCount = keyword_count transactionalKeywords text;
          informationalCount = keyword_count informationalKeywords text;
          navigationalCount = keyword_count navigationalKeywords text
      in if 0 < transactionalCount \<and> 0 < informationalCount then Mixed
         else if informationalCount < transactionalCount \<and> navigationalCount < transactionalCount
           then Transactional
         else if navigationalCount < informationalCount then Informational
         else Navigational)"

text \<open>
  The classification as the specification words it, on the three counts: Mixed when the
  transactional and the informational count are both non-zero, Navigational when all
  three are zero, otherwise the highest count, a tie going to the transactional before
  the informational before the navigational.
\<close>

definition spec_classifyIntent :: "nat \<Rightarrow> nat \<Rightarrow> nat \<Rightarrow> intent" where
  "spec_classifyIntent t i n =
     (if 0 < t \<and> 0 < i then Mixed
      else if t = 0 \<and> i = 0 \<and> n = 0 then Navigational
      else if i \<le> t \<and> n \<le> t then Transactional
      else if n \<le> i then Informational
      else Navigational)"

text \<open>The prompt the deriver produces for the London to Paris route.\<close>

definition paris_prompt :: string where
  "paris_prompt = ''cheapest london to paris train tickets online''"

section \<open>The prompt deriver (useAnalyzer.ts)\<close>

text \<open>
  The first capture group of \<^verbatim>\<open>url.match(/train-times\/([^\/]+)/)\<close>: the search goes
  from left to right for the first position where the literal is followed by at least
  one character other than a slash, and the group is the longest run of such characters.
  \<open>None\<close> is the failed match (\<^verbatim>\<open>null\<close>).
\<close>

fun match_group :: "string \<Rightarrow> string \<Rightarrow> string option" where
  "match_group lit [] = None"
| "match_group lit (c # cs) =
     (let slug = takeWhile (\<lambda>x. x \<noteq> CHR ''/'') (drop (length lit) (c # cs))
      in if prefix lit (c # cs) \<and> slug \<noteq> [] then Some slug
         else match_group lit cs)"

definition match_train_times :: "string \<Rightarrow> string option" where
  "match_train_times url' = match_group ''train-times/'' url'"

text \<open>
  \<^verbatim>\<open>s.split(sep)\<close> for a string separator: the pieces between the occurrences of
  the separator, found from left to right without overlap; the empty separator splits
  into single characters.
\<close>

function js_split_from :: "string \<Rightarrow> string \<Rightarrow> string \<Rightarrow> string list" where
  "js_split_from sep cur [] = [cur]"
| "js_split_from sep cur (c # cs) =
     (if sep \<noteq> [] \<and> prefix sep (c # cs)
      then cur # js_split_from sep [] (drop (length sep) (c # cs))
      else js_split_from sep (cur @ [c]) cs)"
  by pat_completeness auto
termination
  by (relation "measure (\<lambda>(sep, cur, s). length s)") (auto simp: neq_Nil_conv)

definition js_split :: "string \<Rightarrow> string \<Rightarrow> string list" where
  "js_split s sep = (if sep = [] then map (\<lambda>c. [c]) s else js_split_from sep [] s)"

text \<open>
  An element of the destructured array as the template literal prints it: a missing
  element is \<^verbatim>\<open>undefined\<close> and prints as that word.
\<close>

definition element_text :: "string list \<Rightarrow> nat \<Rightarrow> string" where
  "element_text parts i = (if i < length parts then parts ! i else ''undefined'')"

definition extractRoutePrompt :: "string \<Rightarrow> string" where
  "extractRoutePrompt url' =
     (case match_train_times url' of
        None \<Rightarrow> []
      | Some group1 \<Rightarrow>
          (let route = toLowerCase (filter (\<lambda>c. c \<noteq> CHR ''/'') group1)
           in if \<not> js_includes route ''-to-'' then []
              else (let parts = js_split route ''-to-'';
                        origin = element_text parts 0;
                        dest = element_text parts 1
                    in ''cheapest '' @ origin @ '' to '' @ dest @ '' train tickets online'')))"

text \<open>
  \<open>before_first sep s d\<close>: \<open>d\<close> is the text of \<open>s\<close> before its first occurrence of the
  separator, or all of \<open>s\<close> when the separator does not occur.
\<close>

definition before_first :: "string \<Rightarrow> string \<Rightarrow> string \<Rightarrow> bool" where
  "before_first sep s d =
     ((\<not> sublist sep s \<and> d = s)
      \<or> (\<exists>t. s = d @ sep @ t \<and> \<not> sublist sep (d @ butlast sep)))"

section \<open>The result exporter (useAnalyzer.ts)\<close>










section \<open>The embedding provider (useAnalyzer.ts)\<close>

text \<open>
  \<^verbatim>\<open>generateEmbedding\<close> talks to the embedding service and draws random numbers. The
  model takes both as parameters: \<open>fetch\<close> gives the outcome of the one HTTP exchange
  (the promise rejects, or a response with its \<^verbatim>\<open>ok\<close> flag, its status text and its
  body, \<open>None\<close> for a body that is not JSON), and \<open>random i\<close> is the \<open>i\<close>-th value
  \<^verbatim>\<open>Math.random()\<close> returns. A JavaScript value is a JSON value or \<^verbatim>\<open>undefined\<close>
  (\<open>None\<close>). The result of the asynchronous function is \<open>Inr\<close> of the value its promise
  resolves to, or \<open>Inl\<close> of the error it rejects with.
\<close>

datatype json = JNull | JBool bool | JNum number | JStr string | JArr "json list"
  | JObj "(string \<times> json) list"











section \<open>Properties\<close>

lemma score_finite:
  "similarity result = Fin s \<Longrightarrow> calculatePriorityScore result = Fin (spec_priority s result)"
  by (auto simp: calculatePriorityScore_def spec_priority_def factor_points_def gap_count_def
      js_sub_def Let_def split: option.splits)

lemma js_add_zero: "js_add x (Fin 0) = x"
  by (cases x) simp_all

lemma spec_priority_le_100: "spec_priority s result \<le> 100"
  by (simp add: spec_priority_def)

lemma factor_points_nonneg: "0 \<le> factor_points result"
  by (simp add: factor_points_def)

lemma spec_priority_ge_50: "s \<le> 1 \<Longrightarrow> 50 \<le> spec_priority s result"
proof -
  assume "s \<le> 1"
  then have "0 \<le> (1 - s) * 40" by simp
  with factor_points_nonneg [of result] show ?thesis
    by (simp add: spec_priority_def)
qed





text \<open>
  Claim C4. The priority score is the minimum of 100 and the sum of: 50,
  (1 - similarity) * 40, 20 for a transactional intent, 15 for a mixed intent, 5 per
  keyword gap, 15 for an entity mismatch and 10 for a sentence structure issue. It holds
  in JavaScript's arithmetic for every similarity, NaN and the infinities included, and
  for a finite similarity the score is the real number the formula gives.
\<close>

theorem calculatePriorityScore_formula:
  "calculatePriorityScore result =
     js_min
       (js_add (js_add (js_add (js_add (js_add (js_add (Fin 50)
          (js_mul (js_sub (Fin 1) (similarity result)) (Fin 40)))
          (Fin (if intentType result = Some Transactional then 20 else 0)))
          (Fin (if intentType result = Some Mixed then 15 else 0)))
          (Fin (5 * real (gap_count result))))
          (Fin (if entityMismatch result = Some True then 15 else 0)))
          (Fin (if sentenceStructureIssue result = Some True then 10 else 0)))
       (Fin 100)
   \<and> (\<forall>s. similarity result = Fin s \<longrightarrow>
         calculatePriorityScore result =
           Fin (min 100
             (50 + (1 - s) * 40
              + (if intentType result = Some Transactional then 20 else 0)
              + (if intentType result = Some Mixed then 15 else 0)
              + 5 * real (gap_count result)
              + (if entityMismatch result = Some True then 15 else 0)
              + (if sentenceStructureIssue result = Some True then 10 else 0))))"
proof (intro conjI allI impI)
  show "calculatePriorityScore result =
     js_min
       (js_add (js_add (js_add (js_add (js_add (js_add (Fin 50)
          (js_mul (js_sub (Fin 1) (similarity result)) (Fin 40)))
          (Fin (if intentType result = Some Transactional then 20 else 0)))
          (Fin (if intentType result = Some Mixed then 15 else 0)))
          (Fin (5 * real (gap_count result))))
          (Fin (if entityMismatch result = Some True then 15 else 0)))
          (Fin (if sentenceStructureIssue result = Some True then 10 else 0)))
       (Fin 100)"
    by (simp add: calculatePriorityScore_def gap_count_def js_add_zero Let_def mult.commute
        split: option.splits)
next
  fix s
  assume "similarity result = Fin s"
  then have "calculatePriorityScore result = Fin (spec_priority s result)"
    by (rule score_finite)
  then show "calculatePriorityScore result =
           Fin (min 100
             (50 + (1 - s) * 40
              + (if intentType result = Some Transactional then 20 else 0)
              + (if intentType result = Some Mixed then 15 else 0)
              + 5 * real (gap_count result)
              + (if entityMismatch result = Some True then 15 else 0)
              + (if sentenceStructureIssue result = Some True then 10 else 0)))"
    by (simp add: spec_priority_def factor_points_def add.assoc)
qed

theorem calculatePriorityScore_formula_witness:
  "similarity (transactional_result (1/2)) = Fin (1/2)
   \<and> calculatePriorityScore (transactional_result (1/2)) = Fin 90"
  using calculatePriorityScore_formula [of "transactional_result (1/2)", THEN conjunct2,
      THEN spec, of "1/2"]
  by (simp add: transactional_result_def gap_count_def)

text \<open>
  Claim C10. When the similarity is at most 1 the priority score is at least 50 (and at
  most 100): the base is 50 and no other term is negative.
\<close>

theorem calculatePriorityScore_at_least_50:
  "js_le (similarity result) (Fin 1) \<Longrightarrow>
     js_le (Fin 50) (calculatePriorityScore result)
     \<and> js_le (calculatePriorityScore result) (Fin 100)"
proof (cases "similarity result")
  case (Fin s)
  assume "js_le (similarity result) (Fin 1)"
  with Fin have "s \<le> 1" by simp
  with Fin show ?thesis
    by (simp add: score_finite spec_priority_ge_50 spec_priority_le_100)
next
  case NegInf
  then show ?thesis
    by (simp add: calculatePriorityScore_def js_sub_def scale_inf_def Let_def
        split: option.splits)
qed simp_all

theorem calculatePriorityScore_at_least_50_witness:
  "js_le (similarity (transactional_result 1)) (Fin 1)
   \<and> js_le (Fin 50) (calculatePriorityScore (transactional_result 1))
   \<and> calculatePriorityScore (transactional_result 1) = Fin 70"
  using calculatePriorityScore_at_least_50 [of "transactional_result 1"]
  by (simp add: transactional_result_def calculatePriorityScore_def js_sub_def)




subsection \<open>Cosine similarity\<close>

lemma js_mul_commute: "js_mul x y = js_mul y x"
  by (cases x; cases y) (simp_all add: mult.commute)

lemma reduce_from_dot_zip:
  "length as = length bs \<Longrightarrow>
   reduce_from (\<lambda>sum val i. js_add sum (js_mul val (js_index (pre @ bs) i))) acc (length pre) as
   = foldl (\<lambda>sum (x, y). js_add sum (js_mul x y)) acc (zip as bs)"
proof (induction as arbitrary: bs pre acc)
  case Nil
  then show ?case by simp
next
  case (Cons x as)
  then obtain y bs' where bs: "bs = y # bs'" and len: "length as = length bs'"
    by (cases bs) auto
  have "reduce_from (\<lambda>sum val i. js_add sum (js_mul val (js_index ((pre @ [y]) @ bs') i)))
          (js_add acc (js_mul x y)) (length (pre @ [y])) as
        = foldl (\<lambda>sum (x, y). js_add sum (js_mul x y)) (js_add acc (js_mul x y)) (zip as bs')"
    using len by (rule Cons.IH)
  then show ?case
    by (simp add: bs js_index_def)
qed

lemma dot_product_zip:
  "length a = length b \<Longrightarrow>
   reduce a (\<lambda>sum val i. js_add sum (js_mul val (js_index b i))) init
   = foldl (\<lambda>sum (x, y). js_add sum (js_mul x y)) init (zip a b)"
  using reduce_from_dot_zip [of a b "[]" init] by (simp add: reduce_def)

lemma zip_fold_commute:
  "length as = length bs \<Longrightarrow>
   foldl (\<lambda>sum (x, y). js_add sum (js_mul x y)) acc (zip as bs)
   = foldl (\<lambda>sum (x, y). js_add sum (js_mul x y)) acc (zip bs as)"
  by (induction as bs arbitrary: acc rule: list_induct2) (simp_all add: js_mul_commute)









text \<open>
  Claim C5, as the specification states it (for all vectors), fails: when the second
  vector is longer its extra components are ignored, when it is shorter the missing
  components make the dot product NaN.
\<close>

theorem cosineSimilarity_symmetry_counterexample:
  "cosineSimilarity [Fin 1] [Fin 1, Fin 0] = Fin 1
   \<and> cosineSimilarity [Fin 1, Fin 0] [Fin 1] = NaN
   \<and> cosineSimilarity [Fin 1] [Fin 1, Fin 0] \<noteq> cosineSimilarity [Fin 1, Fin 0] [Fin 1]"
  by (simp add: cosineSimilarity_def reduce_def js_index_def)

text \<open>
  Claim C5, amended. For vectors of equal length, whatever their components (NaN and the
  infinities included), \<open>cosineSimilarity a b\<close> and \<open>cosineSimilarity b a\<close> are the same
  value.
\<close>

theorem cosineSimilarity_symmetric:
  "length a = length b \<Longrightarrow> cosineSimilarity a b = cosineSimilarity b a"
  by (simp add: cosineSimilarity_def dot_product_zip zip_fold_commute [of a b] js_mul_commute
      Let_def)

theorem cosineSimilarity_symmetric_witness:
  "length [Fin 1, Fin 0] = length [Fin 0, Fin 1]
   \<and> cosineSimilarity [Fin 1, Fin 0] [Fin 0, Fin 1] = cosineSimilarity [Fin 0, Fin 1] [Fin 1, Fin 0]
   \<and> cosineSimilarity [Fin 1, Fin 0] [Fin 0, Fin 1] = Fin 0"
  using cosineSimilarity_symmetric [of "[Fin 1, Fin 0]" "[Fin 0, Fin 1]"]
  by (simp add: cosineSimilarity_def reduce_def js_index_def)



subsection \<open>The response matcher\<close>

lemma js_includes_sublist: "js_includes s t = sublist t s"
  by (induction s) (simp_all add: sublist_Cons_right)

lemma findMatchingGPTResponse_step:
  "findMatchingGPTResponse p (item # rest) =
     (if symmetric_substring p item then or_empty (item_response item)
      else findMatchingGPTResponse p rest)"
  by (auto simp: symmetric_substring_def js_includes_sublist Let_def)

lemma findMatchingGPTResponse_first:
  "symmetric_substring p item \<Longrightarrow> \<forall>x \<in> set pre. \<not> symmetric_substring p x \<Longrightarrow>
   findMatchingGPTResponse p (pre @ item # post) = or_empty (item_response item)"
  by (induction pre) (simp_all add: findMatchingGPTResponse_step del: findMatchingGPTResponse.simps(2))

lemma findMatchingGPTResponse_none:
  "\<forall>x \<in> set js. \<not> symmetric_substring p x \<Longrightarrow> findMatchingGPTResponse p js = []"
  by (induction js) (simp_all add: findMatchingGPTResponse_step del: findMatchingGPTResponse.simps(2))

lemma symmetric_substring_empty_prompt: "symmetric_substring [] item"
  by (simp add: symmetric_substring_def toLowerCase_def)

text \<open>
  Claim C1, as the specification states it, fails for the empty prompt: the empty string
  is a substring of every query, so the first entry of the corpus matches and its response
  is returned, not the empty string.
\<close>

theorem findMatchingGPTResponse_empty_prompt_counterexample:
  "findMatchingGPTResponse ''''
     [corpus_entry ''cheapest london to paris train tickets online'' ''X''] = ''X''
   \<and> findMatchingGPTResponse ''''
     [corpus_entry ''cheapest london to paris train tickets online'' ''X''] \<noteq> ''''"
  by (simp add: corpus_entry_def toLowerCase_def or_empty_def)

text \<open>
  Claim C1, amended. The matcher returns the response (the empty string when the entry has
  none) of the first corpus entry whose query is a case-insensitive substring of the
  prompt or vice versa, and the empty string when no entry satisfies that test. The empty
  prompt satisfies the test with every entry, so for it the first entry of a non-empty
  corpus wins.
\<close>

theorem findMatchingGPTResponse_first_match:
  "(symmetric_substring p item \<and> (\<forall>x \<in> set pre. \<not> symmetric_substring p x) \<longrightarrow>
      findMatchingGPTResponse p (pre @ item # post) = or_empty (item_response item))
   \<and> ((\<forall>x \<in> set js. \<not> symmetric_substring p x) \<longrightarrow> findMatchingGPTResponse p js = [])
   \<and> symmetric_substring [] item
   \<and> findMatchingGPTResponse [] (item # post) = or_empty (item_response item)"
  using findMatchingGPTResponse_first [of p item pre post] findMatchingGPTResponse_none [of js p]
    findMatchingGPTResponse_first [of "[]" item "[]" post] symmetric_substring_empty_prompt [of item]
  by simp

lemma toLowerCase_mixed_case_prompt:
  "toLowerCase ''Cheapest London to Paris train tickets online'' = paris_prompt"
  by (simp add: paris_prompt_def toLowerCase_def to_lower_char_def)

lemma toLowerCase_queries:
  "toLowerCase ''london to paris'' = ''london to paris''"
  "toLowerCase ''york to leeds'' = ''york to leeds''"
  by (simp_all add: toLowerCase_def to_lower_char_def)

lemma mixed_case_prompt_matches:
  "symmetric_substring ''Cheapest London to Paris train tickets online''
     (corpus_entry ''london to paris'' ''X'')"
  by (simp add: symmetric_substring_def corpus_entry_def or_empty_def toLowerCase_queries
      toLowerCase_mixed_case_prompt paris_prompt_def js_includes_sublist [symmetric])

lemma mixed_case_prompt_no_match:
  "\<not> symmetric_substring ''Cheapest London to Paris train tickets online''
     (corpus_entry ''york to leeds'' ''Y'')"
  by (simp add: symmetric_substring_def corpus_entry_def or_empty_def toLowerCase_queries
      toLowerCase_mixed_case_prompt paris_prompt_def js_includes_sublist [symmetric])

theorem findMatchingGPTResponse_first_match_witness:
  "symmetric_substring ''Cheapest London to Paris train tickets online''
     (corpus_entry ''london to paris'' ''X'')
   \<and> \<not> symmetric_substring ''Cheapest London to Paris train tickets online''
     (corpus_entry ''york to leeds'' ''Y'')
   \<and> findMatchingGPTResponse ''Cheapest London to Paris train tickets online''
       [corpus_entry ''york to leeds'' ''Y'', corpus_entry ''london to paris'' ''X'',
        corpus_entry ''paris'' ''Z''] = ''X''
   \<and> findMatchingGPTResponse ''Cheapest London to Paris train tickets online''
       [corpus_entry ''york to leeds'' ''Y''] = ''''"
proof -
  have r: "or_empty (item_response (corpus_entry ''london to paris'' ''X'')) = ''X''"
    by (simp add: corpus_entry_def or_empty_def)
  show ?thesis
    using findMatchingGPTResponse_first_match
      [of "''Cheapest London to Paris train tickets online''"
        "corpus_entry ''london to paris'' ''X''"
        "[corpus_entry ''york to leeds'' ''Y'']"
        "[corpus_entry ''paris'' ''Z'']"
        "[corpus_entry ''york to leeds'' ''Y'']"]
      mixed_case_prompt_matches mixed_case_prompt_no_match
    by (simp add: r del: findMatchingGPTResponse.simps)
qed

subsection \<open>Intent classification\<close>

lemma toLowerCase_paris_page:
  "toLowerCase (paris_prompt @ '' Official Trainline website'')
   = ''cheapest london to paris train tickets online official trainline website''"
  by (simp add: paris_prompt_def toLowerCase_def to_lower_char_def)

lemma paris_page_counts:
  "keyword_count transactionalKeywords
     ''cheapest london to paris train tickets online official trainline website'' = 3"
  "keyword_count informationalKeywords
     ''cheapest london to paris train tickets online official trainline website'' = 0"
  "keyword_count navigationalKeywords
     ''cheapest london to paris train tickets online official trainline website'' = 3"
  by (simp_all add: keyword_count_def transactionalKeywords_def informationalKeywords_def
      navigationalKeywords_def)

text \<open>
  Claim C2, as the specification states it, fails on a tie between the transactional and
  the navigational count: for the prompt of the London to Paris route and a page that
  names the official Trainline website both counts are 3 and the informational count is
  0, the specification's rule gives Transactional, the code returns Navigational.
\<close>

theorem classifyIntent_tie_counterexample:
  "keyword_count transactionalKeywords
     (toLowerCase (paris_prompt @ '' '' @ ''Official Trainline website'')) = 3
   \<and> keyword_count informationalKeywords
     (toLowerCase (paris_prompt @ '' '' @ ''Official Trainline website'')) = 0
   \<and> keyword_count navigationalKeywords
     (toLowerCase (paris_prompt @ '' '' @ ''Official Trainline website'')) = 3
   \<and> spec_classifyIntent 3 0 3 = Transactional
   \<and> classifyIntent paris_prompt ''Official Trainline website'' = Navigational"
  by (simp add: classifyIntent_def spec_classifyIntent_def toLowerCase_paris_page
      paris_page_counts)

text \<open>
  Claim C2, amended. With the three keyword counts taken over the lower-cased prompt, a
  space and the page text: the result is Mixed when the transactional and the
  informational count are both non-zero; otherwise Transactional when the transactional
  count is strictly greater than the navigational count, Informational when the
  informational count is strictly greater than the navigational count, and Navigational
  in every other case, which includes a tie with the navigational count and three zero
  counts.
\<close>

theorem classifyIntent_by_counts:
  "classifyIntent p g =
     (if 0 < keyword_count transactionalKeywords (toLowerCase (p @ '' '' @ g))
         \<and> 0 < keyword_count informationalKeywords (toLowerCase (p @ '' '' @ g))
      then Mixed
      else if keyword_count navigationalKeywords (toLowerCase (p @ '' '' @ g))
          < keyword_count transactionalKeywords (toLowerCase (p @ '' '' @ g))
      then Transactional
      else if keyword_count navigationalKeywords (toLowerCase (p @ '' '' @ g))
          < keyword_count informationalKeywords (toLowerCase (p @ '' '' @ g))
      then Informational
      else Navigational)"
  by (auto simp: classifyIntent_def Let_def)

subsection \<open>The prompt deriver\<close>

lemma not_sublist_butlast: "sep \<noteq> [] \<Longrightarrow> \<not> sublist sep (butlast sep)"
proof
  assume ne: "sep \<noteq> []" and "sublist sep (butlast sep)"
  from this(2) have "length sep \<le> length (butlast sep)" by (rule sublist_length_le)
  then have "length sep \<le> length sep - 1" by (simp only: length_butlast)
  then have "length sep = 0" by arith
  with ne show False by simp
qed

lemma prefix_shorten:
  assumes "sep \<noteq> []" and "prefix sep (p @ sep @ t)" and "p \<noteq> []"
  shows "prefix sep (p @ butlast sep)"
proof -
  from assms(2) obtain r where r: "p @ sep @ t = sep @ r" by (auto simp: prefix_def)
  have len: "length sep \<le> length (p @ butlast sep)"
    using assms(1,3) by (cases p) simp_all
  have "p @ sep @ t = (p @ butlast sep) @ (last sep # t)"
    using assms(1) by simp
  then have "take (length sep) (p @ sep @ t) = take (length sep) (p @ butlast sep)"
    using len by (simp only: take_append) simp
  moreover have "take (length sep) (p @ sep @ t) = sep"
    by (simp only: r) simp
  ultimately have "sep = take (length sep) (p @ butlast sep)" by simp
  then show ?thesis using take_is_prefix [of "length sep" "p @ butlast sep"] by simp
qed

lemma split_no_sep: "\<not> sublist sep s \<Longrightarrow> js_split_from sep cur s = [cur @ s]"
proof (induction s arbitrary: cur)
  case Nil
  then show ?case by simp
next
  case (Cons c cs)
  then have "\<not> prefix sep (c # cs)" and "\<not> sublist sep cs"
    by (auto simp: sublist_Cons_right)
  with Cons.IH [of "cur @ [c]"] show ?case by simp
qed

lemma split_leftmost:
  "sep \<noteq> [] \<Longrightarrow> \<not> sublist sep (p @ butlast sep) \<Longrightarrow>
   js_split_from sep cur (p @ sep @ t) = (cur @ p) # js_split_from sep [] t"
proof (induction p arbitrary: cur)
  case Nil
  obtain c cs where ccs: "sep @ t = c # cs" using Nil(1) by (cases sep) auto
  have "prefix sep (c # cs)" by (simp add: ccs [symmetric])
  moreover have "drop (length sep) (c # cs) = t" by (simp add: ccs [symmetric])
  ultimately have "js_split_from sep cur (c # cs) = cur # js_split_from sep [] t"
    using Nil(1) by simp
  then show ?case by (simp add: ccs)
next
  case (Cons c p)
  have np: "\<not> prefix sep ((c # p) @ sep @ t)"
    using prefix_shorten [of sep "c # p" t] Cons.prems by auto
  have "\<not> sublist sep (p @ butlast sep)"
    using Cons.prems(2) by (auto simp: sublist_Cons_right)
  with Cons.IH [of "cur @ [c]"] Cons.prems(1) np show ?case by simp
qed

lemma leftmost_exists:
  "sep \<noteq> [] \<Longrightarrow> sublist sep s \<Longrightarrow> \<exists>p t. s = p @ sep @ t \<and> \<not> sublist sep (p @ butlast sep)"
proof (induction s)
  case Nil
  then show ?case by simp
next
  case (Cons c cs)
  show ?case
  proof (cases "prefix sep (c # cs)")
    case True
    then obtain t where "c # cs = [] @ sep @ t" by (auto simp: prefix_def)
    moreover have "\<not> sublist sep ([] @ butlast sep)"
      using not_sublist_butlast [OF Cons.prems(1)] by simp
    ultimately show ?thesis by blast
  next
    case False
    with Cons.prems have "sublist sep cs" by (simp add: sublist_Cons_right)
    with Cons obtain p t where pt: "cs = p @ sep @ t" "\<not> sublist sep (p @ butlast sep)" by blast
    have "\<not> prefix sep ((c # p) @ butlast sep)"
    proof
      assume "prefix sep ((c # p) @ butlast sep)"
      moreover have "c # cs = ((c # p) @ butlast sep) @ [last sep] @ t"
        using pt(1) Cons.prems(1) by simp
      ultimately have "prefix sep (c # cs)" by (simp only: prefix_prefix)
      with False show False ..
    qed
    with pt(2) have "\<not> sublist sep ((c # p) @ butlast sep)"
      by (simp add: sublist_Cons_right)
    moreover have "c # cs = (c # p) @ sep @ t" using pt(1) by simp
    ultimately show ?thesis by blast
  qed
qed

lemma split_first_two:
  assumes "sep \<noteq> []" and "sublist sep s"
  shows "\<exists>p t d ds. s = p @ sep @ t \<and> \<not> sublist sep (p @ butlast sep)
           \<and> before_first sep t d \<and> js_split_from sep [] s = p # d # ds"
proof -
  from leftmost_exists [OF assms] obtain p t
    where pt: "s = p @ sep @ t" "\<not> sublist sep (p @ butlast sep)" by blast
  have first: "js_split_from sep [] s = p # js_split_from sep [] t"
    using split_leftmost [OF assms(1) pt(2), of "[]" t] by (simp add: pt(1))
  show ?thesis
  proof (cases "sublist sep t")
    case True
    from leftmost_exists [OF assms(1) True] obtain d t'
      where dt: "t = d @ sep @ t'" "\<not> sublist sep (d @ butlast sep)" by blast
    have "js_split_from sep [] t = d # js_split_from sep [] t'"
      using split_leftmost [OF assms(1) dt(2), of "[]" t'] by (simp add: dt(1))
    moreover have "before_first sep t d"
      unfolding before_first_def using dt by blast
    ultimately have "s = p @ sep @ t \<and> \<not> sublist sep (p @ butlast sep)
           \<and> before_first sep t d \<and> js_split_from sep [] s = p # d # js_split_from sep [] t'"
      using pt first by simp
    then show ?thesis by (intro exI)
  next
    case False
    then have "js_split_from sep [] t = [t]"
      using split_no_sep [of sep t "[]"] by simp
    moreover have "before_first sep t t"
      using False by (simp add: before_first_def)
    ultimately have "s = p @ sep @ t \<and> \<not> sublist sep (p @ butlast sep)
           \<and> before_first sep t t \<and> js_split_from sep [] s = p # t # []"
      using pt first by simp
    then show ?thesis by (intro exI)
  qed
qed

lemma match_group_none: "\<not> sublist lit u \<Longrightarrow> match_group lit u = None"
proof (induction u)
  case Nil
  then show ?case by simp
next
  case (Cons c cs)
  then have "\<not> prefix lit (c # cs)" and "\<not> sublist lit cs"
    by (auto simp: sublist_Cons_right)
  with Cons.IH show ?case by (simp add: Let_def)
qed

lemma match_group_some:
  "match_group lit u = Some slug \<Longrightarrow>
   slug \<noteq> [] \<and> CHR ''/'' \<notin> set slug \<and> sublist (lit @ slug) u"
proof (induction u)
  case Nil
  then show ?case by simp
next
  case (Cons c cs)
  let ?rest = "drop (length lit) (c # cs)"
  let ?slug = "takeWhile (\<lambda>x. x \<noteq> CHR ''/'') ?rest"
  show ?case
  proof (cases "prefix lit (c # cs) \<and> ?slug \<noteq> []")
    case True
    with Cons.prems have slug: "slug = ?slug" by (simp add: Let_def)
    from True obtain r where r: "c # cs = lit @ r" by (auto simp: prefix_def)
    have "?rest = r" by (simp only: r) simp
    then have "r = slug @ dropWhile (\<lambda>x. x \<noteq> CHR ''/'') r"
      using slug by simp
    then have "c # cs = [] @ (lit @ slug) @ dropWhile (\<lambda>x. x \<noteq> CHR ''/'') r"
      using r by simp
    then have "sublist (lit @ slug) (c # cs)"
      unfolding sublist_def by blast
    moreover have "CHR ''/'' \<notin> set slug"
      unfolding slug using set_takeWhileD [of "CHR ''/''" "\<lambda>x. x \<noteq> CHR ''/''" ?rest] by blast
    moreover have "slug \<noteq> []" using True slug by simp
    ultimately show ?thesis by simp
  next
    case False
    with Cons.prems have "match_group lit cs = Some slug"
      by (simp add: Let_def split: if_splits)
    with Cons.IH show ?thesis by (simp add: sublist_Cons_right)
  qed
qed

lemma prefix_next_char:
  assumes "prefix (lit @ [c]) w"
  shows "prefix lit w" and "drop (length lit) w = c # drop (Suc (length lit)) w"
proof -
  from assms obtain r where r: "w = (lit @ [c]) @ r" by (auto simp: prefix_def)
  then have w: "w = lit @ c # r" by simp
  show "prefix lit w" by (simp add: w)
  show "drop (length lit) w = c # drop (Suc (length lit)) w" by (simp add: w)
qed

lemma match_group_None_iff:
  "match_group lit u = None \<longleftrightarrow> (\<forall>c. sublist (lit @ [c]) u \<longrightarrow> c = CHR ''/'')"
proof (induction u)
  case Nil
  then show ?case by simp
next
  case (Cons a u)
  let ?slug = "takeWhile (\<lambda>x. x \<noteq> CHR ''/'') (drop (length lit) (a # u))"
  have here: "(prefix lit (a # u) \<and> ?slug \<noteq> []) \<longleftrightarrow> (\<exists>c. c \<noteq> CHR ''/'' \<and> prefix (lit @ [c]) (a # u))"
  proof
    assume h: "prefix lit (a # u) \<and> ?slug \<noteq> []"
    then obtain r where r: "a # u = lit @ r" by (auto simp: prefix_def)
    with h have "takeWhile (\<lambda>x. x \<noteq> CHR ''/'') r \<noteq> []" by simp
    then obtain c r' where "r = c # r'" and "c \<noteq> CHR ''/''"
      by (cases r) (auto split: if_splits)
    with r have "a # u = (lit @ [c]) @ r'" by simp
    then have "prefix (lit @ [c]) (a # u)" by (metis prefixI)
    with \<open>c \<noteq> CHR ''/''\<close> show "\<exists>c. c \<noteq> CHR ''/'' \<and> prefix (lit @ [c]) (a # u)" by blast
  next
    assume "\<exists>c. c \<noteq> CHR ''/'' \<and> prefix (lit @ [c]) (a # u)"
    then obtain c where c: "c \<noteq> CHR ''/''" "prefix (lit @ [c]) (a # u)" by blast
    from prefix_next_char [OF c(2)] c(1) show "prefix lit (a # u) \<and> ?slug \<noteq> []"
      by simp
  qed
  show ?case
  proof (cases "prefix lit (a # u) \<and> ?slug \<noteq> []")
    case True
    then have "match_group lit (a # u) \<noteq> None" by (simp add: Let_def)
    moreover from True here obtain c where "c \<noteq> CHR ''/''" "prefix (lit @ [c]) (a # u)"
      by blast
    then have "\<exists>c. sublist (lit @ [c]) (a # u) \<and> c \<noteq> CHR ''/''"
      using prefix_imp_sublist by blast
    ultimately show ?thesis by blast
  next
    case False
    then have "match_group lit (a # u) = match_group lit u"
      unfolding match_group.simps Let_def by (rule if_not_P)
    moreover have "(\<forall>c. sublist (lit @ [c]) (a # u) \<longrightarrow> c = CHR ''/'')
        \<longleftrightarrow> (\<forall>c. sublist (lit @ [c]) u \<longrightarrow> c = CHR ''/'')"
      using False here by (auto simp: sublist_Cons_right)
    ultimately show ?thesis using Cons.IH by simp
  qed
qed

lemma match_group_decomp:
  "match_group lit u = Some slug \<Longrightarrow>
   \<exists>pre post. u = pre @ lit @ slug @ post
     \<and> (post = [] \<or> hd post = CHR ''/'')
     \<and> match_group lit (pre @ lit) = None"
proof (induction u)
  case Nil
  then show ?case by simp
next
  case (Cons a u)
  let ?rest = "drop (length lit) (a # u)"
  let ?slug = "takeWhile (\<lambda>x. x \<noteq> CHR ''/'') ?rest"
  show ?case
  proof (cases "prefix lit (a # u) \<and> ?slug \<noteq> []")
    case True
    with Cons.prems have slug: "slug = ?slug" by (simp add: Let_def)
    from True obtain r where r: "a # u = lit @ r" by (auto simp: prefix_def)
    have rest: "?rest = r" by (simp only: r) simp
    let ?post = "dropWhile (\<lambda>x. x \<noteq> CHR ''/'') r"
    have "a # u = [] @ lit @ slug @ ?post" using r slug rest by simp
    moreover have "?post = [] \<or> hd ?post = CHR ''/''"
      using hd_dropWhile [of "\<lambda>x. x \<noteq> CHR ''/''" r] by auto
    moreover have "match_group lit ([] @ lit) = None"
    proof -
      have "\<not> sublist (lit @ [c]) lit" for c
        using sublist_length_le [of "lit @ [c]" lit] by auto
      then show ?thesis by (simp add: match_group_None_iff)
    qed
    ultimately show ?thesis by blast
  next
    case False
    with Cons.prems have "match_group lit u = Some slug"
      by (simp add: Let_def split: if_splits)
    from Cons.IH [OF this] obtain pre post where pp: "u = pre @ lit @ slug @ post"
      "post = [] \<or> hd post = CHR ''/''" "match_group lit (pre @ lit) = None" by blast
    have "match_group lit ((a # pre) @ lit) = None"
    proof -
      have "c = CHR ''/''" if "sublist (lit @ [c]) (a # pre @ lit)" for c
      proof -
        from that consider "prefix (lit @ [c]) (a # pre @ lit)" | "sublist (lit @ [c]) (pre @ lit)"
          by (auto simp: sublist_Cons_right)
        then show ?thesis
        proof cases
          case 1
          have "a # u = (a # pre @ lit) @ slug @ post" using pp(1) by simp
          with 1 have p: "prefix (lit @ [c]) (a # u)" by (simp only: prefix_prefix)
          from prefix_next_char [OF p] False show ?thesis by (auto split: if_splits)
        next
          case 2
          with pp(3) show ?thesis by (simp add: match_group_None_iff)
        qed
      qed
      then show ?thesis unfolding match_group_None_iff by simp
    qed
    moreover have "a # u = (a # pre) @ lit @ slug @ post" using pp(1) by simp
    ultimately show ?thesis using pp(2) by blast
  qed
qed

lemma match_none: "\<not> sublist ''train-times/'' u \<Longrightarrow> match_train_times u = None"
  unfolding match_train_times_def by (rule match_group_none)

lemma match_some:
  "match_train_times u = Some slug \<Longrightarrow>
   slug \<noteq> [] \<and> CHR ''/'' \<notin> set slug \<and> sublist (''train-times/'' @ slug) u"
  unfolding match_train_times_def by (rule match_group_some)

lemma toLowerCase_upper_slug: "toLowerCase ''London-TO-Paris'' = ''london-to-paris''"
  by (simp add: toLowerCase_def to_lower_char_def)

lemma toLowerCase_lower_slug: "toLowerCase ''london-to-paris'' = ''london-to-paris''"
  by (simp add: toLowerCase_def to_lower_char_def)

lemma js_split_london_paris: "js_split ''london-to-paris'' ''-to-'' = [''london'', ''paris'']"
  by (simp add: js_split_def)

lemma match_upper_slug:
  "match_train_times ''https://www.example.com/train-times/London-TO-Paris/''
     = Some ''London-TO-Paris''"
  by (simp add: match_train_times_def)

lemma match_lower_slug:
  "match_train_times ''https://www.example.com/train-times/london-to-paris/''
     = Some ''london-to-paris''"
  by (simp add: match_train_times_def)

text \<open>
  Claim C8, as the specification states it, fails on a slug with capital letters: the
  slug \<open>London-TO-Paris\<close> lacks the separator \<open>-to-\<close>, and the result is not the empty
  string, because the code lower-cases the slug before it looks for the separator.
\<close>

theorem extractRoutePrompt_case_counterexample:
  "match_train_times ''https://www.example.com/train-times/London-TO-Paris/''
     = Some ''London-TO-Paris''
   \<and> \<not> sublist ''-to-'' ''London-TO-Paris''
   \<and> extractRoutePrompt ''https://www.example.com/train-times/London-TO-Paris/''
     = ''cheapest london to paris train tickets online''
   \<and> extractRoutePrompt ''https://www.example.com/train-times/London-TO-Paris/'' \<noteq> ''''"
  by (simp add: extractRoutePrompt_def match_upper_slug toLowerCase_upper_slug
      js_split_london_paris element_text_def js_includes_sublist [symmetric])

text \<open>
  Claim C8, amended. The function is a function of the URL alone. The slug is the
  longest run of characters other than a slash after the first \<open>train-times/\<close> that is
  followed by such a character; there is none exactly when every \<open>train-times/\<close> of the
  URL is followed by a slash or by the end. Without a slug, in particular when
  \<open>train-times/\<close> does not occur in the URL, and when the lower-cased slug lacks
  \<open>-to-\<close>, the result is the empty string.
  When the lower-cased slug contains \<open>-to-\<close>, the result is \<open>cheapest origin to dest train
  tickets online\<close>, where \<open>origin\<close> is the lower-cased slug's text before its first
  \<open>-to-\<close> and \<open>dest\<close> is the text after it, up to the next \<open>-to-\<close> or the end.
\<close>

theorem extractRoutePrompt_cases:
  "(match_train_times u = None \<longrightarrow> extractRoutePrompt u = [])
   \<and> ((match_train_times u = None)
        = (\<forall>c. sublist (''train-times/'' @ [c]) u \<longrightarrow> c = CHR ''/''))
   \<and> (\<not> sublist ''train-times/'' u \<longrightarrow> extractRoutePrompt u = [])
   \<and> (match_train_times u = Some slug \<longrightarrow>
        slug \<noteq> [] \<and> CHR ''/'' \<notin> set slug
        \<and> (\<exists>pre post. u = pre @ ''train-times/'' @ slug @ post
              \<and> (post = [] \<or> hd post = CHR ''/'')
              \<and> match_train_times (pre @ ''train-times/'') = None)
        \<and> (\<not> sublist ''-to-'' (toLowerCase slug) \<longrightarrow> extractRoutePrompt u = [])
        \<and> (sublist ''-to-'' (toLowerCase slug) \<longrightarrow>
             (\<exists>origin rest dest.
                toLowerCase slug = origin @ ''-to-'' @ rest
                \<and> \<not> sublist ''-to-'' (origin @ ''-to'')
                \<and> before_first ''-to-'' rest dest
                \<and> extractRoutePrompt u
                    = ''cheapest '' @ origin @ '' to '' @ dest @ '' train tickets online'')))"
proof (intro conjI impI)
  show "extractRoutePrompt u = []" if "match_train_times u = None"
    using that by (simp add: extractRoutePrompt_def)
  show "extractRoutePrompt u = []" if "\<not> sublist ''train-times/'' u"
    using match_none [OF that] by (simp add: extractRoutePrompt_def)
  show "(match_train_times u = None)
      = (\<forall>c. sublist (''train-times/'' @ [c]) u \<longrightarrow> c = CHR ''/'')"
    unfolding match_train_times_def by (rule match_group_None_iff)
next
  assume m: "match_train_times u = Some slug"
  from match_some [OF m] show "slug \<noteq> []" and ns: "CHR ''/'' \<notin> set slug"
    by simp_all
  from m show "\<exists>pre post. u = pre @ ''train-times/'' @ slug @ post
      \<and> (post = [] \<or> hd post = CHR ''/'')
      \<and> match_train_times (pre @ ''train-times/'') = None"
    unfolding match_train_times_def by (rule match_group_decomp)
  have f: "filter (\<lambda>c. c \<noteq> CHR ''/'') slug = slug"
    using ns by (auto simp: filter_id_conv)
  show "extractRoutePrompt u = []" if "\<not> sublist ''-to-'' (toLowerCase slug)"
    using that by (simp add: extractRoutePrompt_def m f js_includes_sublist)
  show "\<exists>origin rest dest.
          toLowerCase slug = origin @ ''-to-'' @ rest
          \<and> \<not> sublist ''-to-'' (origin @ ''-to'')
          \<and> before_first ''-to-'' rest dest
          \<and> extractRoutePrompt u
              = ''cheapest '' @ origin @ '' to '' @ dest @ '' train tickets online''"
    if s: "sublist ''-to-'' (toLowerCase slug)"
  proof -
    have ne: "''-to-'' \<noteq> []" by simp
    from split_first_two [OF ne s] obtain p t d ds
      where *: "toLowerCase slug = p @ ''-to-'' @ t" "\<not> sublist ''-to-'' (p @ butlast ''-to-'')"
        "before_first ''-to-'' t d" "js_split_from ''-to-'' [] (toLowerCase slug) = p # d # ds"
      by blast
    have "extractRoutePrompt u = ''cheapest '' @ p @ '' to '' @ d @ '' train tickets online''"
      using s *(4) by (simp add: extractRoutePrompt_def m f js_includes_sublist js_split_def
          element_text_def Let_def)
    moreover have "\<not> sublist ''-to-'' (p @ ''-to'')" using *(2) by simp
    ultimately have "toLowerCase slug = p @ ''-to-'' @ t
          \<and> \<not> sublist ''-to-'' (p @ ''-to'')
          \<and> before_first ''-to-'' t d
          \<and> extractRoutePrompt u
              = ''cheapest '' @ p @ '' to '' @ d @ '' train tickets online''"
      using *(1,3) by (intro conjI)
    then show ?thesis by (intro exI)
  qed
qed

theorem extractRoutePrompt_cases_witness:
  "match_train_times ''https://www.example.com/train-times/london-to-paris/''
     = Some ''london-to-paris''
   \<and> sublist ''-to-'' (toLowerCase ''london-to-paris'')
   \<and> extractRoutePrompt ''https://www.example.com/train-times/london-to-paris/''
     = ''cheapest london to paris train tickets online''
   \<and> \<not> sublist ''train-times/'' ''https://www.example.com/trains/london-to-paris/''
   \<and> extractRoutePrompt ''https://www.example.com/trains/london-to-paris/'' = ''''"
  using extractRoutePrompt_cases
      [of "''https://www.example.com/train-times/london-to-paris/''" "''london-to-paris''"]
    extractRoutePrompt_cases [of "''https://www.example.com/trains/london-to-paris/''" "''x''"]
  by (simp add: extractRoutePrompt_def match_lower_slug toLowerCase_lower_slug
      js_split_london_paris element_text_def js_includes_sublist [symmetric])

subsection \<open>The result exporter\<close>









subsection \<open>The embedding provider\<close>








end
